theory Spec2Isabelle
  imports Complex_Main
begin

section \<open>Numbers of the source\<close>

text \<open>
  The TypeScript sources compute with the \<^verbatim>\<open>number\<close> type.  The model takes these
  numbers as mathematical reals (no rounding of intermediate results, no NaN and no
  infinities); loop counters and recursion depths, which the sources only ever step by
  one, are integers.  A division by zero has the value 0 in the model; the statements
  below that divide by a canvas extent or by the zoom radius take it positive.  \<^verbatim>\<open>src/utils/fractalsRenderer.ts\<close> repeats the three main
  renderers of \<^verbatim>\<open>src/components/*.ts\<close> word for word, so one model serves both copies.
\<close>

text \<open>The remainder operator \<^verbatim>\<open>a % b\<close>: the quotient is truncated towards zero, so the
  result carries the sign of the dividend.\<close>

definition js_trunc :: "real \<Rightarrow> int" where
  "js_trunc q = (if 0 \<le> q then \<lfloor>q\<rfloor> else \<lceil>q\<rceil>)"

definition js_rem :: "real \<Rightarrow> real \<Rightarrow> real" where
  "js_rem a b = a - b * of_int (js_trunc (a / b))"

text \<open>\<^verbatim>\<open>Math.round\<close>: the nearest integer, a tie going up.\<close>

definition js_round :: "real \<Rightarrow> int" where
  "js_round v = \<lfloor>v + 1 / 2\<rfloor>"

section \<open>Colour model: \<^verbatim>\<open>src/utils/colorUtils.ts\<close>\<close>

type_synonym RGBColor = "int \<times> int \<times> int"

text \<open>The chain of hue sectors of \<^verbatim>\<open>hsbToRgb\<close> (lines 22 to 34): the triple
  \<open>(r, g, bl)\<close> before the match value is added.\<close>

definition hsbSector :: "real \<Rightarrow> real \<Rightarrow> real \<Rightarrow> real \<times> real \<times> real" where
  "hsbSector h c x =
     (if h \<ge> 0 \<and> h < 60 then (c, x, 0)
      else if h \<ge> 60 \<and> h < 120 then (x, c, 0)
      else if h \<ge> 120 \<and> h < 180 then (0, c, x)
      else if h \<ge> 180 \<and> h < 240 then (0, x, c)
      else if h \<ge> 240 \<and> h < 300 then (x, 0, c)
      else (c, 0, x))"

definition hsbToRgb :: "real \<Rightarrow> real \<Rightarrow> real \<Rightarrow> RGBColor" where
  "hsbToRgb h s0 b0 =
     (let s = s0 / 100;
          b = b0 / 100;
          c = b * s;
          x = c * (1 - \<bar>js_rem (h / 60) 2 - 1\<bar>);
          m = b - c;
          (r, g, bl) = hsbSector h c x
      in (js_round ((r + m) * 255), js_round ((g + m) * 255), js_round ((bl + m) * 255)))"

section \<open>The drawing surface\<close>

text \<open>
  The renderers only write to the \<^verbatim>\<open>CanvasRenderingContext2D\<close> they are handed.  The
  model of a context is the size of its canvas and the sequence of calls and property
  assignments made on it so far, oldest first.
\<close>

datatype style = Rgb int int int | Hex string

text \<open>An \<^verbatim>\<open>ImageData\<close>: four entries (red, green, blue, alpha) per pixel, row by row.
  Its \<^verbatim>\<open>data\<close> is a \<^verbatim>\<open>Uint8ClampedArray\<close>: a store clamps the value to \<open>0..255\<close>,
  and a store past the end is dropped, as \<open>list_update\<close> does.\<close>

record ImageData =
  img_width :: nat
  img_height :: nat
  img_data :: "int list"




datatype canvas_op =
    SetStrokeStyle style
  | SetFillStyle style
  | SetLineWidth real
  | BeginPath
  | MoveTo real real
  | LineTo real real
  | Arc real real real real real
  | ClosePath
  | Stroke
  | FillRect real real real real
  | PutImageData ImageData real real

record ctx =
  canvas_width :: nat
  canvas_height :: nat
  ops :: "canvas_op list"

definition emit :: "canvas_op \<Rightarrow> ctx \<Rightarrow> ctx" where
  "emit c ctx = ctx\<lparr>ops := ops ctx @ [c]\<rparr>"

section \<open>Koch star: \<^verbatim>\<open>src/components/kochRenderer.ts\<close>\<close>

text \<open>
  \<^verbatim>\<open>drawKochLine\<close> leaves its recursion only through \<^verbatim>\<open>depth === 0\<close>, so it is a
  partial function: \<open>None\<close> stands for a call that never returns.
\<close>

partial_function (option) drawKochLine ::
    "ctx \<Rightarrow> real \<Rightarrow> real \<Rightarrow> real \<Rightarrow> real \<Rightarrow> int \<Rightarrow> ctx option" where
  "drawKochLine ctx x1 y1 x2 y2 depth =
     (if depth = 0 then Some (emit (LineTo x2 y2) ctx)
      else
        let dx = x2 - x1;
            dy = y2 - y1;
            x3 = x1 + dx / 3;
            y3 = y1 + dy / 3;
            x4 = x1 + 2 * dx / 3;
            y4 = y1 + 2 * dy / 3;
            px = x3 + (x4 - x3) * 0.5 - (y4 - y3) * sqrt 3 / 6;
            py = y3 + (y4 - y3) * 0.5 + (x4 - x3) * sqrt 3 / 6
        in Option.bind (drawKochLine ctx x1 y1 x3 y3 (depth - 1)) (\<lambda>ctx1.
           Option.bind (drawKochLine ctx1 x3 y3 px py (depth - 1)) (\<lambda>ctx2.
           Option.bind (drawKochLine ctx2 px py x4 y4 (depth - 1)) (\<lambda>ctx3.
           drawKochLine ctx3 x4 y4 x2 y2 (depth - 1)))))"


text \<open>\<^verbatim>\<open>drawKochStar\<close>: the eight vertices, then one Koch line per edge inside a single
  path.\<close>

definition kochVertices :: "real \<Rightarrow> real \<Rightarrow> real \<Rightarrow> (real \<times> real) list" where
  "kochVertices cx cy radius =
     map (\<lambda>i. let angle = (real i * pi) / 4
              in (cx + cos angle * (100 / radius), cy + sin angle * (100 / radius)))
       [0..<8]"

definition kochEdge :: "(real \<times> real) list \<Rightarrow> nat \<Rightarrow> ctx option \<Rightarrow> ctx option" where
  "kochEdge vertices i acc =
     Option.bind acc (\<lambda>ctx.
       let start = vertices ! i;
           end = vertices ! ((i + 1) mod 8)
       in drawKochLine ctx (fst start) (snd start) (fst end) (snd end) 3)"

definition drawKochStar :: "ctx \<Rightarrow> real \<Rightarrow> real \<Rightarrow> real \<Rightarrow> ctx option" where
  "drawKochStar ctx centerX centerY radius =
     (let (red, green, blue) = hsbToRgb 60 80 90;
          ctx = emit (SetStrokeStyle (Rgb red green blue)) ctx;
          ctx = emit (SetLineWidth 1) ctx;
          scale = 150 / radius;
          cx = centerX * scale + 300;
          cy = centerY * scale + 300;
          vertices = kochVertices cx cy radius;
          ctx = emit BeginPath ctx;
          ctx = emit (MoveTo (fst (vertices ! 0)) (snd (vertices ! 0))) ctx
      in Option.bind (fold (kochEdge vertices) [0..<8] (Some ctx))
           (\<lambda>ctx. Some (emit Stroke ctx)))"

section \<open>Circle packing: \<^verbatim>\<open>src/components/apolonianGasket.ts\<close>\<close>




section \<open>Julia set: \<^verbatim>\<open>src/components/juliaRenderer.ts\<close>\<close>



text \<open>Lines 21 and 22: the mathematical coordinate of a pixel along one axis.\<close>

definition pixelCoord :: "real \<Rightarrow> real \<Rightarrow> nat \<Rightarrow> real \<Rightarrow> real" where
  "pixelCoord center p extent radius = center + ((p / real extent) - 0.5) * 4 * radius"



section \<open>Thumbnails: \<^verbatim>\<open>src/utils/thumbnailGenerators.ts\<close>\<close>








section \<open>Click to focus: \<^verbatim>\<open>src/components/fractalsPlayground.tsx\<close>\<close>

record FocusPoint =
  focus_x :: real
  focus_y :: real

text \<open>\<^verbatim>\<open>handleCanvasClick\<close>: the canvas may be missing (\<open>None\<close>), and then the focus
  point stays as it is.  A present canvas is its width, its height and the left and top
  of its bounding rectangle.\<close>

definition handleCanvasClick ::
    "(nat \<times> nat \<times> real \<times> real) option \<Rightarrow> real \<Rightarrow> real \<Rightarrow> FocusPoint \<Rightarrow> FocusPoint" where
  "handleCanvasClick canvas clientX clientY focusPoint =
     (case canvas of
        None \<Rightarrow> focusPoint
      | Some (cw, ch, rect_left, rect_top) \<Rightarrow>
          let x = clientX - rect_left;
              y = clientY - rect_top;
              newX = ((x / real cw) - 0.5) * 4;
              newY = ((y / real ch) - 0.5) * 4
          in \<lparr>focus_x = newX, focus_y = newY\<rparr>)"

section \<open>Definitions that follow the specification\<close>

text \<open>Points of the plane, the point a fraction \<open>t\<close> of the way from \<open>a\<close> to \<open>b\<close>,
  and the quarter turn \<open>(vx, vy) \<mapsto> (- vy, vx)\<close>.\<close>

type_synonym point = "real \<times> real"

definition along :: "real \<Rightarrow> point \<Rightarrow> point \<Rightarrow> point" where
  "along t a b = (fst a + t * (fst b - fst a), snd a + t * (snd b - snd a))"

definition rot90 :: "point \<Rightarrow> point" where
  "rot90 v = (- snd v, fst v)"

text \<open>The apex as the specification gives it:
  \<open>apex = P1 + 0.5 (P2 - P1) + rot90 (P2 - P1) (\<surd>3 / 6)\<close>.\<close>

definition kochApex :: "point \<Rightarrow> point \<Rightarrow> point" where
  "kochApex p1 p2 =
     (let v = (fst p2 - fst p1, snd p2 - snd p1);
          w = rot90 v
      in (fst p1 + 0.5 * fst v + fst w * (sqrt 3 / 6),
          snd p1 + 0.5 * snd v + snd w * (sqrt 3 / 6)))"

text \<open>The end points of the straight pieces of a Koch line of a given depth, in drawing
  order: the specification's subdivision, with the same apex rule at every level.\<close>

fun kochPath :: "nat \<Rightarrow> point \<Rightarrow> point \<Rightarrow> point list" where
  "kochPath 0 a b = [b]"
| "kochPath (Suc n) a b =
     (let p1 = along (1 / 3) a b;
          p2 = along (2 / 3) a b;
          ap = kochApex p1 p2
      in kochPath n a p1 @ kochPath n p1 ap @ kochPath n ap p2 @ kochPath n p2 b)"

definition lineToOps :: "point list \<Rightarrow> canvas_op list" where
  "lineToOps ps = map (\<lambda>p. LineTo (fst p) (snd p)) ps"

fun isLineTo :: "canvas_op \<Rightarrow> bool" where
  "isLineTo (LineTo x y) = True"
| "isLineTo other = False"


text \<open>A canvas of the main view, with nothing drawn on it yet.\<close>

definition blankCanvas :: ctx where
  "blankCanvas = \<lparr>canvas_width = 600, canvas_height = 600, ops = []\<rparr>"



text \<open>The escape-time rule as the specification states it: the orbit of \<open>z\<close> under
  \<open>z \<mapsto> z\<^sup>2 + c\<close> with \<open>c = - 0.8 + 0.156 i\<close>, and the first count at which the orbit has
  left the disc of radius 2 or the count has reached \<open>maxIter\<close>.\<close>

definition juliaC :: complex where
  "juliaC = Complex (- 0.8) 0.156"

definition juliaOrbit :: "nat \<Rightarrow> complex \<Rightarrow> complex" where
  "juliaOrbit n z = ((\<lambda>z. z * z + juliaC) ^^ n) z"

definition escaped :: "complex \<Rightarrow> bool" where
  "escaped z = (4 \<le> Re z * Re z + Im z * Im z)"

definition escapeCount :: "nat \<Rightarrow> complex \<Rightarrow> nat" where
  "escapeCount maxIter z = (LEAST n. n = maxIter \<or> escaped (juliaOrbit n z))"






definition kochOutline :: "nat \<Rightarrow> point list \<Rightarrow> point list" where
  "kochOutline n vertices =
     concat (map (\<lambda>i. kochPath n (vertices ! i) (vertices ! ((i + 1) mod 8))) [0..<8])"

section \<open>Properties of the colour model\<close>

lemmas hsb_defs = hsbToRgb_def hsbSector_def js_rem_def js_trunc_def js_round_def

text \<open>
  Claim C4.  At saturation and brightness 100, \<^verbatim>\<open>hsbToRgb\<close> returns the six primary and
  secondary colours at the six sector boundaries: red at 0, yellow at 60, green at 120,
  cyan at 180, blue at 240 and magenta at 300.
\<close>

theorem hsbToRgb_sector_boundaries:
  "hsbToRgb 0 100 100 = (255, 0, 0) \<and>
   hsbToRgb 60 100 100 = (255, 255, 0) \<and>
   hsbToRgb 120 100 100 = (0, 255, 0) \<and>
   hsbToRgb 180 100 100 = (0, 255, 255) \<and>
   hsbToRgb 240 100 100 = (0, 0, 255) \<and>
   hsbToRgb 300 100 100 = (255, 0, 255)"
  by (simp add: hsb_defs)

text \<open>
  Claim C8.  \<^verbatim>\<open>hsbToRgb\<close> has no error branch: every hue, saturation and brightness
  gives a triple.  A hue below 0 or from 360 on reaches the last branch of the sector
  chain, so the triple before the match value is added is \<open>(c, 0, x)\<close>.
\<close>

theorem hsbToRgb_hue_outside_range:
  assumes "h < 0 \<or> 360 \<le> h"
  shows "hsbSector h c x = (c, 0, x) \<and>
         hsbToRgb h s0 b0 =
           (let s = s0 / 100;
                b = b0 / 100;
                c = b * s;
                x = c * (1 - \<bar>js_rem (h / 60) 2 - 1\<bar>);
                m = b - c
            in (js_round ((c + m) * 255), js_round ((0 + m) * 255), js_round ((x + m) * 255)))"
proof -
  from assms have sector: "hsbSector h c x = (c, 0, x)" for c x
    by (auto simp: hsbSector_def)
  show ?thesis
    by (simp only: hsbToRgb_def Let_def sector split_conv)
qed

theorem hsbToRgb_hue_outside_range_witness:
  "((- 60 :: real) < 0 \<or> 360 \<le> (- 60 :: real)) \<and>
   hsbToRgb (- 60) 100 100 = (255, 0, - 255) \<and>
   ((420 :: real) < 0 \<or> 360 \<le> (420 :: real)) \<and>
   hsbToRgb 420 100 100 = (255, 0, 255)"
proof -
  have lo: "(- 60 :: real) < 0 \<or> 360 \<le> (- 60 :: real)" by simp
  have hi: "(420 :: real) < 0 \<or> 360 \<le> (420 :: real)" by simp
  from hsbToRgb_hue_outside_range [OF lo, of 0 0 100 100]
  have a: "hsbToRgb (- 60) 100 100 = (255, 0, - 255)"
    by (simp add: js_rem_def js_trunc_def js_round_def ceiling_def)
  from hsbToRgb_hue_outside_range [OF hi, of 0 0 100 100]
  have b: "hsbToRgb 420 100 100 = (255, 0, 255)"
    by (simp add: js_rem_def js_trunc_def js_round_def)
  from lo hi a b show ?thesis by blast
qed

section \<open>Properties of the Koch line\<close>

lemma lineToOps_append: "lineToOps (ps @ qs) = lineToOps ps @ lineToOps qs"
  by (simp add: lineToOps_def)

lemma length_lineToOps: "length (lineToOps ps) = length ps"
  by (simp add: lineToOps_def)

lemma list_all_lineToOps: "list_all isLineTo (lineToOps ps)"
  by (simp add: lineToOps_def list_all_iff)

lemma length_kochPath: "length (kochPath n a b) = 4 ^ n"
  by (induction n arbitrary: a b) (simp_all add: Let_def)

text \<open>The division points and the apex of the code are those of the specification.\<close>

lemma kochStep_points:
  fixes x1 y1 x2 y2 :: real
  defines "x3 \<equiv> x1 + (x2 - x1) / 3" and "y3 \<equiv> y1 + (y2 - y1) / 3"
    and "x4 \<equiv> x1 + 2 * (x2 - x1) / 3" and "y4 \<equiv> y1 + 2 * (y2 - y1) / 3"
  shows "along (1 / 3) (x1, y1) (x2, y2) = (x3, y3)"
    and "along (2 / 3) (x1, y1) (x2, y2) = (x4, y4)"
    and "kochApex (x3, y3) (x4, y4) =
          (x3 + (x4 - x3) * 0.5 - (y4 - y3) * sqrt 3 / 6,
           y3 + (y4 - y3) * 0.5 + (x4 - x3) * sqrt 3 / 6)"
  by (simp_all add: along_def kochApex_def rot90_def x3_def y3_def x4_def y4_def)

text \<open>At a depth that is a natural number the call returns, having appended one
  \<^verbatim>\<open>lineTo\<close> per point of the specification's path.\<close>

lemma drawKochLine_nat:
  "drawKochLine ctx x1 y1 x2 y2 (int n) =
     Some (ctx\<lparr>ops := ops ctx @ lineToOps (kochPath n (x1, y1) (x2, y2))\<rparr>)"
proof (induction n arbitrary: ctx x1 y1 x2 y2)
  case 0
  show ?case
    by (subst drawKochLine.simps) (simp add: emit_def lineToOps_def)
next
  case (Suc n)
  have d: "int (Suc n) - 1 = int n" by simp
  show ?case
    apply (subst drawKochLine.simps)
    apply (simp only: d Let_def Suc.IH kochPath.simps kochStep_points)
    apply (simp add: lineToOps_append)
    done
qed

lemma drawKochLine_nonneg:
  assumes "0 \<le> depth"
  shows "drawKochLine ctx x1 y1 x2 y2 depth =
     Some (ctx\<lparr>ops := ops ctx @ lineToOps (kochPath (nat depth) (x1, y1) (x2, y2))\<rparr>)"
  using drawKochLine_nat [of ctx x1 y1 x2 y2 "nat depth"] assms by simp

text \<open>A call that returns was made at a depth that is not negative: below 0 the test
  \<^verbatim>\<open>depth === 0\<close> never holds.\<close>

lemma drawKochLine_Some_nonneg:
  assumes "drawKochLine ctx x1 y1 x2 y2 depth = Some ctx'"
  shows "0 \<le> depth"
proof (rule drawKochLine.raw_induct
    [where P = "\<lambda>ctx x1 y1 x2 y2 depth ctx'. 0 \<le> depth", OF _ assms])
  fix f :: "ctx \<Rightarrow> real \<Rightarrow> real \<Rightarrow> real \<Rightarrow> real \<Rightarrow> int \<Rightarrow> ctx option"
  fix c a1 b1 a2 b2 d r
  assume IH: "\<And>c a1 b1 a2 b2 d r. f c a1 b1 a2 b2 d = Some r \<Longrightarrow> 0 \<le> d"
  assume body: "(if d = 0 then Some (emit (LineTo a2 b2) c)
      else
        let dx = a2 - a1;
            dy = b2 - b1;
            x3 = a1 + dx / 3;
            y3 = b1 + dy / 3;
            x4 = a1 + 2 * dx / 3;
            y4 = b1 + 2 * dy / 3;
            px = x3 + (x4 - x3) * 0.5 - (y4 - y3) * sqrt 3 / 6;
            py = y3 + (y4 - y3) * 0.5 + (x4 - x3) * sqrt 3 / 6
        in Option.bind (f c a1 b1 x3 y3 (d - 1)) (\<lambda>ctx1.
           Option.bind (f ctx1 x3 y3 px py (d - 1)) (\<lambda>ctx2.
           Option.bind (f ctx2 px py x4 y4 (d - 1)) (\<lambda>ctx3.
           f ctx3 x4 y4 a2 b2 (d - 1))))) = Some r"
  show "0 \<le> d"
  proof (cases "d = 0")
    case True
    then show ?thesis by simp
  next
    case False
    with body obtain c1 where
      "f c a1 b1 (a1 + (a2 - a1) / 3) (b1 + (b2 - b1) / 3) (d - 1) = Some c1"
      by (auto simp: Let_def split: Option.bind_splits)
    from IH [OF this] show ?thesis by simp
  qed
qed

lemma drawKochLine_negative:
  "depth < 0 \<Longrightarrow> drawKochLine ctx x1 y1 x2 y2 depth = None"
  using drawKochLine_Some_nonneg [of ctx x1 y1 x2 y2 depth]
  by (cases "drawKochLine ctx x1 y1 x2 y2 depth") auto

text \<open>
  Claim C5.  For every pair of end points and every depth \<open>d \<ge> 0\<close>, \<^verbatim>\<open>drawKochLine\<close>
  returns having appended exactly \<open>4 ^ d\<close> operations to the path, every one a
  \<^verbatim>\<open>lineTo\<close>; at depth 0 the one operation is the \<^verbatim>\<open>lineTo\<close> to the end point given.
\<close>

theorem drawKochLine_segment_count:
  assumes "0 \<le> depth"
  shows "(\<exists>segs. drawKochLine ctx x1 y1 x2 y2 depth = Some (ctx\<lparr>ops := ops ctx @ segs\<rparr>) \<and>
            length segs = 4 ^ nat depth \<and> list_all isLineTo segs) \<and>
         drawKochLine ctx x1 y1 x2 y2 0 = Some (ctx\<lparr>ops := ops ctx @ [LineTo x2 y2]\<rparr>)"
proof
  show "\<exists>segs. drawKochLine ctx x1 y1 x2 y2 depth = Some (ctx\<lparr>ops := ops ctx @ segs\<rparr>) \<and>
            length segs = 4 ^ nat depth \<and> list_all isLineTo segs"
    using drawKochLine_nonneg [OF assms, of ctx x1 y1 x2 y2]
    by (auto simp: length_lineToOps length_kochPath list_all_lineToOps)
  show "drawKochLine ctx x1 y1 x2 y2 0 = Some (ctx\<lparr>ops := ops ctx @ [LineTo x2 y2]\<rparr>)"
    using drawKochLine_nat [of ctx x1 y1 x2 y2 0] by (simp add: lineToOps_def)
qed

theorem drawKochLine_segment_count_witness:
  "(0 :: int) \<le> 2 \<and>
   (\<exists>segs. drawKochLine blankCanvas 0 0 3 0 2 = Some (blankCanvas\<lparr>ops := segs\<rparr>) \<and>
      length segs = 16 \<and> list_all isLineTo segs) \<and>
   drawKochLine blankCanvas 0 0 3 0 0 = Some (blankCanvas\<lparr>ops := [LineTo 3 0]\<rparr>)"
proof -
  have h: "(0 :: int) \<le> 2" by simp
  from drawKochLine_segment_count [OF h, of blankCanvas 0 0 3 0]
  show ?thesis by (simp add: blankCanvas_def)
qed

text \<open>
  Claim C6.  At a depth \<open>d \<ge> 1\<close> the call computes \<open>P1\<close> a third and \<open>P2\<close> two thirds
  of the way along the segment and the apex \<open>P1 + 0.5 (P2 - P1) + rot90 (P2 - P1) (\<surd>3 / 6)\<close>
  with \<open>rot90 (vx, vy) = (- vy, vx)\<close>, and is the sequence of the four calls on
  \<open>(start, P1)\<close>, \<open>(P1, apex)\<close>, \<open>(apex, P2)\<close>, \<open>(P2, end)\<close> at depth \<open>d - 1\<close>.  The
  rotation has the same sign at every level: the whole call draws the specification's
  path, which uses the one apex rule throughout.
\<close>

theorem drawKochLine_subdivision_step:
  assumes "1 \<le> depth"
  shows "(let P1 = along (1 / 3) (x1, y1) (x2, y2);
              P2 = along (2 / 3) (x1, y1) (x2, y2);
              apex = kochApex P1 P2
          in drawKochLine ctx x1 y1 x2 y2 depth =
               Option.bind (drawKochLine ctx x1 y1 (fst P1) (snd P1) (depth - 1)) (\<lambda>ctx1.
               Option.bind (drawKochLine ctx1 (fst P1) (snd P1) (fst apex) (snd apex) (depth - 1)) (\<lambda>ctx2.
               Option.bind (drawKochLine ctx2 (fst apex) (snd apex) (fst P2) (snd P2) (depth - 1)) (\<lambda>ctx3.
               drawKochLine ctx3 (fst P2) (snd P2) x2 y2 (depth - 1))))) \<and>
         drawKochLine ctx x1 y1 x2 y2 depth =
           Some (ctx\<lparr>ops := ops ctx @ lineToOps (kochPath (nat depth) (x1, y1) (x2, y2))\<rparr>)"
proof
  from assms have nz: "depth \<noteq> 0" by simp
  show "let P1 = along (1 / 3) (x1, y1) (x2, y2);
            P2 = along (2 / 3) (x1, y1) (x2, y2);
            apex = kochApex P1 P2
        in drawKochLine ctx x1 y1 x2 y2 depth =
             Option.bind (drawKochLine ctx x1 y1 (fst P1) (snd P1) (depth - 1)) (\<lambda>ctx1.
             Option.bind (drawKochLine ctx1 (fst P1) (snd P1) (fst apex) (snd apex) (depth - 1)) (\<lambda>ctx2.
             Option.bind (drawKochLine ctx2 (fst apex) (snd apex) (fst P2) (snd P2) (depth - 1)) (\<lambda>ctx3.
             drawKochLine ctx3 (fst P2) (snd P2) x2 y2 (depth - 1))))"
    apply (subst drawKochLine.simps)
    apply (simp only: Let_def kochStep_points nz if_False fst_conv snd_conv)
    done
  from assms have "0 \<le> depth" by simp
  then show "drawKochLine ctx x1 y1 x2 y2 depth =
      Some (ctx\<lparr>ops := ops ctx @ lineToOps (kochPath (nat depth) (x1, y1) (x2, y2))\<rparr>)"
    by (rule drawKochLine_nonneg)
qed

theorem drawKochLine_subdivision_step_witness:
  "(1 :: int) \<le> 1 \<and>
   drawKochLine blankCanvas 0 0 3 0 1 =
     Some (blankCanvas\<lparr>ops := [LineTo 1 0, LineTo (3 / 2) (sqrt 3 / 6), LineTo 2 0, LineTo 3 0]\<rparr>)"
proof -
  have h: "(1 :: int) \<le> 1" by simp
  have n: "nat 1 = Suc 0" by simp
  from conjunct2 [OF drawKochLine_subdivision_step [OF h, of 0 0 3 0 blankCanvas]]
  have "drawKochLine blankCanvas 0 0 3 0 1 =
      Some (blankCanvas\<lparr>ops := ops blankCanvas @ lineToOps (kochPath (nat 1) (0, 0) (3, 0))\<rparr>)"
    .
  then show ?thesis
    by (simp add: n blankCanvas_def lineToOps_def along_def kochApex_def rot90_def)
qed

text \<open>
  Claim C10.  At every depth \<open>d \<ge> 0\<close> \<^verbatim>\<open>drawKochLine\<close> returns, for every pair of end
  points.  The only exit of the recursion is \<^verbatim>\<open>depth === 0\<close>, and every call below lowers
  the depth by one, so the precondition is needed: at a negative depth the call never
  returns.
\<close>

theorem drawKochLine_terminates:
  "(0 \<le> depth \<longrightarrow> (\<exists>ctx'. drawKochLine ctx x1 y1 x2 y2 depth = Some ctx')) \<and>
   (depth < 0 \<longrightarrow> drawKochLine ctx x1 y1 x2 y2 depth = None)"
  using drawKochLine_nonneg [of depth ctx x1 y1 x2 y2]
    drawKochLine_negative [of depth ctx x1 y1 x2 y2]
  by auto

theorem drawKochLine_terminates_witness:
  "(0 :: int) \<le> 3 \<and> (\<exists>ctx'. drawKochLine blankCanvas 0 0 3 0 3 = Some ctx') \<and>
   (- 1 :: int) < 0 \<and> drawKochLine blankCanvas 0 0 3 0 (- 1) = None"
  using drawKochLine_terminates [of 3 blankCanvas 0 0 3 0]
    drawKochLine_terminates [of "- 1" blankCanvas 0 0 3 0]
  by simp

section \<open>Properties of the circle packing\<close>












section \<open>Properties of the Julia renderer\<close>




lemma escapeCount_le: "escapeCount m z \<le> m"
  unfolding escapeCount_def by (rule Least_le) simp





























section \<open>Click to focus and the pixel mapping\<close>

text \<open>
  Claim C7.  On a canvas of width \<open>w\<close> a click at the pixel coordinate \<open>p\<close> sets the
  focus to \<open>(p / w - 0.5) \<sqdot> 4\<close>, which is the value of the per-pixel mapping
  \<open>focus + (p / w - 0.5) \<sqdot> 4 \<sqdot> radius\<close> of \<^verbatim>\<open>drawJuliaSet\<close> at focus 0 and radius 1: the
  new focus is the coordinate the pixel has in that view.  The same holds along the
  height.
\<close>

theorem handleCanvasClick_is_pixelCoord:
  assumes "0 < w" and "0 < h"
  shows "handleCanvasClick (Some (w, h, rect_left, rect_top)) clientX clientY focusPoint =
           \<lparr>focus_x = pixelCoord 0 (clientX - rect_left) w 1,
            focus_y = pixelCoord 0 (clientY - rect_top) h 1\<rparr> \<and>
         ((p / real w) - 0.5) * 4 = pixelCoord 0 p w 1 \<and>
         ((q / real h) - 0.5) * 4 = pixelCoord 0 q h 1"
  by (simp add: handleCanvasClick_def pixelCoord_def Let_def)

theorem handleCanvasClick_is_pixelCoord_witness:
  "(0 :: nat) < 600 \<and>
   handleCanvasClick (Some (600, 600, 10, 20)) 160 320 \<lparr>focus_x = 0, focus_y = 0\<rparr> =
     \<lparr>focus_x = - 1, focus_y = 0\<rparr> \<and>
   pixelCoord 0 150 600 1 = - 1 \<and> pixelCoord 0 300 600 1 = 0"
proof -
  have h: "(0 :: nat) < 600" by simp
  from handleCanvasClick_is_pixelCoord [OF h h, of 10 20 160 320 "\<lparr>focus_x = 0, focus_y = 0\<rparr>" 150 300]
  have "handleCanvasClick (Some (600, 600, 10, 20)) 160 320 \<lparr>focus_x = 0, focus_y = 0\<rparr> =
     \<lparr>focus_x = pixelCoord 0 150 600 1, focus_y = pixelCoord 0 300 600 1\<rparr> \<and>
     (- 1 :: real) = pixelCoord 0 150 600 1 \<and> (0 :: real) = pixelCoord 0 300 600 1"
    by simp
  then show ?thesis by simp
qed

section \<open>Thumbnails against the main generators\<close>













lemma drawKochLine_3:
  "drawKochLine ctx x1 y1 x2 y2 3 =
     Some (ctx\<lparr>ops := ops ctx @ lineToOps (kochPath 3 (x1, y1) (x2, y2))\<rparr>)"
  using drawKochLine_nat [of ctx x1 y1 x2 y2 3] by simp

lemma hsbToRgb_60_80_90: "hsbToRgb 60 80 90 = (230, 230, 46)"
  by (simp add: hsb_defs)

lemma drawKochStar_outline:
  "drawKochStar ctx centerX centerY radius =
     (let vs = kochVertices (centerX * (150 / radius) + 300) (centerY * (150 / radius) + 300) radius
      in Some (ctx\<lparr>ops := ops ctx @
           [SetStrokeStyle (Rgb 230 230 46), SetLineWidth 1, BeginPath,
            MoveTo (fst (vs ! 0)) (snd (vs ! 0))] @
           lineToOps (kochOutline 3 vs) @ [Stroke]\<rparr>))"
  by (simp add: drawKochStar_def hsbToRgb_60_80_90 Let_def upt_rec kochEdge_def drawKochLine_3
      emit_def kochOutline_def lineToOps_append)




end
